theory Spec2Isabelle
  imports Complex_Main "HOL-Library.AList"
begin

section \<open>Data model\<close>

text \<open>
  The four tables of the migration \<^verbatim>\<open>20251225195151_create_finance_tracker_tables.sql\<close>
  and the row interfaces of the pages. A \<^verbatim>\<open>numeric NOT NULL\<close> column is a finite number
  (\<open>real\<close>; rounding of JavaScript numbers is not modelled). A \<^verbatim>\<open>date\<close> column is held as
  the day count of the calendar date from 1970-01-01; the JSON row carries it as the
  string \<^verbatim>\<open>YYYY-MM-DD\<close> of that day. A \<^verbatim>\<open>timestamptz\<close> is milliseconds since the epoch.

  The type \<^verbatim>\<open>date\<close> also has the two special values \<^verbatim>\<open>infinity\<close> and \<^verbatim>\<open>-infinity\<close>, which
  its input function accepts and which the JSON row carries under these names. The
  bill, goal and investment forms take their dates from date pickers, so those columns
  hold calendar days; one transaction form takes free text, so the date of a
  transaction is any value of the column type.
\<close>

datatype pg_date = Day int | DateInfinity | DateMinusInfinity

datatype bill_status = Paid | Pending | Overdue

datatype transaction_type = Income | Expense

type_synonym uuid = string

type_synonym timestamp = int

record Goal =
  g_id :: uuid
  g_user_id :: uuid
  title :: string
  target_amount :: real
  current_amount :: real
  deadline :: "int option"
  g_category :: string
  g_description :: string
  g_created_at :: timestamp
  g_updated_at :: timestamp

record Transaction =
  t_id :: uuid
  t_user_id :: uuid
  t_type :: transaction_type
  amount :: real
  category :: string
  description :: string
  date :: pg_date
  t_created_at :: timestamp

record Bill =
  b_id :: uuid
  b_user_id :: uuid
  b_name :: string
  b_amount :: real
  due_date :: int
  status :: bill_status
  b_category :: string
  recurring :: bool
  b_created_at :: timestamp

record Investment =
  i_id :: uuid
  i_user_id :: uuid
  i_name :: string
  i_type :: string
  amount_invested :: real
  current_value :: real
  purchase_date :: int
  goal_id :: "uuid option"
  i_created_at :: timestamp
  i_updated_at :: timestamp

record database =
  goals :: "Goal list"
  transactions :: "Transaction list"
  bills :: "Bill list"
  investments :: "Investment list"

section \<open>JavaScript dates\<close>

text \<open>
  A \<^verbatim>\<open>Date\<close> is its time value, milliseconds since the epoch in UTC.
  \<^verbatim>\<open>new Date("YYYY-MM-DD")\<close> reads a date-only string as midnight UTC of that day.
  \<^verbatim>\<open>setHours(0, 0, 0, 0)\<close> moves a time value to midnight of its day in local time; the
  runtime's zone is the parameter \<open>tz\<close>, the offset of local time from UTC in
  milliseconds (local = UTC + \<open>tz\<close>), taken as constant.
\<close>

definition ms_per_day :: int where
  "ms_per_day = 86400000"

definition new_Date :: "int \<Rightarrow> timestamp" where
  "new_Date d = d * ms_per_day"

definition local_day :: "int \<Rightarrow> timestamp \<Rightarrow> int" where
  "local_day tz t = (t + tz) div ms_per_day"

definition setHours0 :: "int \<Rightarrow> timestamp \<Rightarrow> timestamp" where
  "setHours0 tz t = local_day tz t * ms_per_day - tz"

section \<open>Bills page: \<^verbatim>\<open>loadBills\<close>\<close>

text \<open>
  The function mapped over the fetched rows in \<^verbatim>\<open>loadBills\<close> (Bills.tsx 48-58, and the
  copy in InvestmentGoals.tsx 468-478); \<open>now\<close> is the time value of \<^verbatim>\<open>new Date()\<close>.
\<close>

definition billWithStatus :: "int \<Rightarrow> timestamp \<Rightarrow> Bill \<Rightarrow> Bill" where
  "billWithStatus tz now bill =
     (if status bill \<noteq> Paid then
        (let dueDate = new_Date (due_date bill);
             today = setHours0 tz now
         in if dueDate < today then bill\<lparr>status := Overdue\<rparr> else bill)
      else bill)"

text \<open>
  The query selects the caller's rows ordered by \<^verbatim>\<open>due_date\<close> ascending (rows with equal
  dates are kept in table order here; the store leaves their order open).
\<close>

definition loadBills :: "uuid \<Rightarrow> int \<Rightarrow> timestamp \<Rightarrow> database \<Rightarrow> Bill list" where
  "loadBills uid tz now db =
     (let data = sort_key due_date (filter (\<lambda>b. b_user_id b = uid) (bills db))
      in map (billWithStatus tz now) data)"

section \<open>Dashboard and net worth\<close>

record DashboardStats =
  netWorth :: real
  totalIncome :: real
  totalExpenses :: real
  activeGoals :: nat
  pendingBills :: nat
  investmentValue :: real

text \<open>\<^verbatim>\<open>xs.reduce((sum, x) => sum + Number(f(x)), 0)\<close>\<close>

definition reduce_sum :: "('a \<Rightarrow> real) \<Rightarrow> 'a list \<Rightarrow> real" where
  "reduce_sum f xs = foldl (\<lambda>sum x. sum + f x) 0 xs"

text \<open>Dashboard.tsx, \<^verbatim>\<open>loadDashboardData\<close> (31-63): four queries, then the statistics.\<close>

definition loadDashboardData :: "uuid \<Rightarrow> database \<Rightarrow> DashboardStats" where
  "loadDashboardData uid db =
     (let txs = filter (\<lambda>t. t_user_id t = uid) (transactions db);
          gs = filter (\<lambda>g. g_user_id g = uid) (goals db);
          bs = filter (\<lambda>b. status b = Pending) (filter (\<lambda>b. b_user_id b = uid) (bills db));
          invs = filter (\<lambda>i. i_user_id i = uid) (investments db);
          totalIncome = reduce_sum amount (filter (\<lambda>t. t_type t = Income) txs);
          totalExpenses = reduce_sum amount (filter (\<lambda>t. t_type t = Expense) txs);
          investmentValue = reduce_sum current_value invs;
          netWorth = totalIncome - totalExpenses + investmentValue
      in \<lparr>netWorth = netWorth, totalIncome = totalIncome, totalExpenses = totalExpenses,
          activeGoals = length gs, pendingBills = length bs,
          investmentValue = investmentValue\<rparr>)"

text \<open>App.tsx, \<^verbatim>\<open>loadNetWorth\<close>: the value passed to \<^verbatim>\<open>setNetWorth\<close>.\<close>

definition loadNetWorth :: "uuid \<Rightarrow> database \<Rightarrow> real" where
  "loadNetWorth uid db =
     (let txs = filter (\<lambda>t. t_user_id t = uid) (transactions db);
          invs = filter (\<lambda>i. i_user_id i = uid) (investments db);
          totalIncome = reduce_sum amount (filter (\<lambda>t. t_type t = Income) txs);
          totalExpenses = reduce_sum amount (filter (\<lambda>t. t_type t = Expense) txs);
          investmentValue = reduce_sum current_value invs
      in totalIncome - totalExpenses + investmentValue)"

section \<open>JavaScript numbers, as far as division needs them\<close>

text \<open>
  The result of a division of two finite numbers: finite, or one of the three values
  IEEE 754 gives for a zero divisor. A zero divisor in this program is always \<open>+0\<close> (a
  \<^verbatim>\<open>reduce\<close> started at 0, or a \<^verbatim>\<open>numeric\<close> column), so the sign of zero plays no part;
  rounding is not modelled.
\<close>

datatype number = Fin real | PosInfinity | NegInfinity | NaN

definition js_div :: "real \<Rightarrow> real \<Rightarrow> number" where
  "js_div x y =
     (if y \<noteq> 0 then Fin (x / y)
      else if x = 0 then NaN
      else if 0 < x then PosInfinity else NegInfinity)"

fun js_mul :: "number \<Rightarrow> real \<Rightarrow> number" where
  "js_mul (Fin a) c = Fin (a * c)"
| "js_mul PosInfinity c = (if c = 0 then NaN else if 0 < c then PosInfinity else NegInfinity)"
| "js_mul NegInfinity c = (if c = 0 then NaN else if 0 < c then NegInfinity else PosInfinity)"
| "js_mul NaN c = NaN"

text \<open>\<^verbatim>\<open>Math.min(x, c)\<close> for a finite \<open>c\<close>.\<close>

fun Math_min :: "number \<Rightarrow> real \<Rightarrow> number" where
  "Math_min (Fin a) c = Fin (min a c)"
| "Math_min PosInfinity c = Fin c"
| "Math_min NegInfinity c = NegInfinity"
| "Math_min NaN c = NaN"

fun show_nat :: "nat \<Rightarrow> string" where
  "show_nat n =
     (if n < 10 then [''0123456789'' ! n]
      else show_nat (n div 10) @ [''0123456789'' ! (n mod 10)])"

declare show_nat.simps [simp del]

text \<open>
  \<^verbatim>\<open>x.toFixed(1)\<close>: a value that is not finite prints as its name; a finite one below
  \<open>10\<^sup>2\<^sup>1\<close> in magnitude prints the integer \<open>n\<close> nearest to \<open>10 * |x|\<close> (the larger one on
  a tie) with a point before its last digit. From \<open>10\<^sup>2\<^sup>1\<close> on JavaScript switches to
  exponent notation, which is left out (\<open>None\<close>).
\<close>

definition toFixed1_digits :: "real \<Rightarrow> string" where
  "toFixed1_digits x =
     (let n = nat \<lfloor>x * 10 + 1 / 2\<rfloor>
      in show_nat (n div 10) @ ''.'' @ show_nat (n mod 10))"

fun toFixed1 :: "number \<Rightarrow> string option" where
  "toFixed1 NaN = Some ''NaN''"
| "toFixed1 PosInfinity = Some ''Infinity''"
| "toFixed1 NegInfinity = Some ''-Infinity''"
| "toFixed1 (Fin x) =
     (if 10 ^ 21 \<le> \<bar>x\<bar> then None
      else if x < 0 then Some (''-'' @ toFixed1_digits (- x))
      else Some (toFixed1_digits x))"

section \<open>Goals page\<close>

text \<open>
  InvestmentGoals.tsx 221, 254 and 259: the progress of one goal card, its label and the
  width of its bar (as a number of percent).
\<close>

definition progress :: "Goal \<Rightarrow> number" where
  "progress goal = js_mul (js_div (current_amount goal) (target_amount goal)) 100"

definition progress_label :: "Goal \<Rightarrow> string option" where
  "progress_label goal = map_option (\<lambda>s. s @ ''%'') (toFixed1 (progress goal))"

definition progress_bar_width :: "Goal \<Rightarrow> number" where
  "progress_bar_width goal = Math_min (progress goal) 100"

text \<open>
  InvestmentGoals.tsx 132-133 and 177: the bar of the whole portfolio on the same page,
  which tests the divisor first and shows \<^verbatim>\<open>0%\<close> when it is not positive.
\<close>

definition totalPortfolioValue :: "Goal list \<Rightarrow> real" where
  "totalPortfolioValue gs = reduce_sum current_amount gs"

definition totalTargetCap :: "Goal list \<Rightarrow> real" where
  "totalTargetCap gs = reduce_sum target_amount gs"

definition portfolio_bar_width :: "Goal list \<Rightarrow> number" where
  "portfolio_bar_width gs =
     (if totalTargetCap gs > 0
      then js_mul (js_div (totalPortfolioValue gs) (totalTargetCap gs)) 100
      else Fin 0)"

text \<open>Dashboard.tsx 140-142: the savings rate, guarded in the same way.\<close>

definition savings_rate_label :: "DashboardStats \<Rightarrow> string option" where
  "savings_rate_label stats =
     map_option (\<lambda>s. s @ ''%'')
       (if totalIncome stats > 0
        then toFixed1 (js_mul (js_div (totalIncome stats - totalExpenses stats) (totalIncome stats)) 100)
        else Some ''0'')"

section \<open>JavaScript objects used as dictionaries\<close>

text \<open>
  An object is the list of its own string keys and values in the order the keys were
  first assigned. \<^verbatim>\<open>obj[k] = v\<close> is \<^const>\<open>AList.update\<close>: an existing key keeps its
  place, a new one goes to the end. \<^verbatim>\<open>Object.entries\<close> lists the keys that are array
  indices (canonical decimal numerals below \<open>2\<^sup>3\<^sup>2 - 1\<close>) first, in ascending numeric
  order, then the other keys in insertion order. Properties inherited from
  \<^verbatim>\<open>Object.prototype\<close> are not modelled.
\<close>

type_synonym 'v object = "(string \<times> 'v) list"

definition is_digit :: "char \<Rightarrow> bool" where
  "is_digit c = (c \<in> set ''0123456789'')"

definition digit_value :: "char \<Rightarrow> int" where
  "digit_value c = of_char c - 48"

definition int_of_digits :: "string \<Rightarrow> int" where
  "int_of_digits s = foldl (\<lambda>n c. 10 * n + digit_value c) 0 s"

definition array_index :: "string \<Rightarrow> int option" where
  "array_index s =
     (if s \<noteq> [] \<and> list_all is_digit s \<and> (length s = 1 \<or> hd s \<noteq> CHR ''0'')
         \<and> int_of_digits s < 4294967295
      then Some (int_of_digits s) else None)"

definition Object_entries :: "'v object \<Rightarrow> (string \<times> 'v) list" where
  "Object_entries obj =
     sort_key (\<lambda>kv. case array_index (fst kv) of Some n \<Rightarrow> n | None \<Rightarrow> 0)
       (filter (\<lambda>kv. array_index (fst kv) \<noteq> None) obj)
     @ filter (\<lambda>kv. array_index (fst kv) = None) obj"

section \<open>Month labels\<close>

text \<open>
  The calendar date (year, month, day) of a day count, in the proleptic Gregorian
  calendar that \<^verbatim>\<open>Date\<close> uses.
\<close>

definition civil_from_days :: "int \<Rightarrow> int \<times> int \<times> int" where
  "civil_from_days n =
     (let z = n + 719468;
          era = z div 146097;
          doe = z mod 146097;
          yoe = (doe - doe div 1460 + doe div 36524 - doe div 146096) div 365;
          doy = doe - (365 * yoe + yoe div 4 - yoe div 100);
          mp = (5 * doy + 2) div 153;
          d = doy - (153 * mp + 2) div 5 + 1;
          m = (if mp < 10 then mp + 3 else mp - 9);
          y = yoe + era * 400 + (if m \<le> 2 then 1 else 0)
      in (y, m, d))"

definition month_short :: "int \<Rightarrow> string" where
  "month_short m =
     (if m = 1 then ''Jan'' else if m = 2 then ''Feb'' else if m = 3 then ''Mar''
      else if m = 4 then ''Apr'' else if m = 5 then ''May'' else if m = 6 then ''Jun''
      else if m = 7 then ''Jul'' else if m = 8 then ''Aug'' else if m = 9 then ''Sep''
      else if m = 10 then ''Oct'' else if m = 11 then ''Nov'' else ''Dec'')"

text \<open>
  The short English month name and the year of a day, as in \<^verbatim>\<open>Oct 2024\<close>. Years before
  1, which print with an era, are outside the model.
\<close>

definition calendar_month_label :: "int \<Rightarrow> string" where
  "calendar_month_label n =
     (case civil_from_days n of
        (y, m, d) \<Rightarrow> month_short m @ '' '' @ show_nat (nat y))"

text \<open>
  \<^verbatim>\<open>toLocaleDateString('en-US', { month: 'short', year: 'numeric' })\<close> of a time value:
  the label of its local date.
\<close>

definition toLocaleDateString :: "int \<Rightarrow> timestamp \<Rightarrow> string" where
  "toLocaleDateString tz t = calendar_month_label (local_day tz t)"

text \<open>
  \<^verbatim>\<open>new Date(t.date).toLocaleDateString('en-US', { month: 'short', year: 'numeric' })\<close> of
  a stored date: \<^verbatim>\<open>new Date\<close> of the text \<^verbatim>\<open>infinity\<close> or \<^verbatim>\<open>-infinity\<close> is an invalid date,
  which prints as \<^verbatim>\<open>Invalid Date\<close>.
\<close>

definition month_label :: "int \<Rightarrow> pg_date \<Rightarrow> string" where
  "month_label tz d =
     (case d of
        Day n \<Rightarrow> toLocaleDateString tz (new_Date n)
      | DateInfinity \<Rightarrow> ''Invalid Date''
      | DateMinusInfinity \<Rightarrow> ''Invalid Date'')"

section \<open>Visual analysis page: \<^verbatim>\<open>loadAnalysisData\<close>\<close>

record CategoryData =
  c_category :: string
  c_amount :: real
  percentage :: number

record MonthTotals =
  income :: real
  expense :: real

record MonthlyData =
  month :: string
  m_income :: real
  m_expense :: real

record AnalysisData =
  incomeByCategory :: "CategoryData list"
  expenseByCategory :: "CategoryData list"
  monthlyData :: "MonthlyData list"

text \<open>
  VisualAnalysis.tsx 40-48: \<^verbatim>\<open>cats[t.category] = (cats[t.category] || 0) + Number(t.amount)\<close>
  for each transaction in turn.
\<close>

definition or_zero :: "real option \<Rightarrow> real" where
  "or_zero v = (case v of None \<Rightarrow> 0 | Some x \<Rightarrow> x)"

definition categories_of :: "Transaction list \<Rightarrow> real object" where
  "categories_of txs =
     foldl (\<lambda>cats t. AList.update (category t)
                       (or_zero (map_of cats (category t)) + amount t) cats) [] txs"

text \<open>
  VisualAnalysis.tsx 50-63: one row per category with its share of the total, then the
  rows sorted by descending amount (the sort is stable).
\<close>

definition category_data :: "real \<Rightarrow> real object \<Rightarrow> CategoryData list" where
  "category_data totalForType cats =
     sort_key (\<lambda>r. - c_amount r)
       (map (\<lambda>(category, amount).
               \<lparr>c_category = category, c_amount = amount,
                percentage = js_mul (js_div amount totalForType) 100\<rparr>)
            (Object_entries cats))"

text \<open>VisualAnalysis.tsx 65-76: the body of the \<^verbatim>\<open>forEach\<close> that fills \<^verbatim>\<open>monthlyMap\<close>.\<close>

definition monthly_step :: "int \<Rightarrow> MonthTotals object \<Rightarrow> Transaction \<Rightarrow> MonthTotals object" where
  "monthly_step tz monthlyMap t =
     (let month = month_label tz (date t);
          monthlyMap1 =
            (if map_of monthlyMap month = None
             then AList.update month \<lparr>income = 0, expense = 0\<rparr> monthlyMap
             else monthlyMap)
      in case map_of monthlyMap1 month of
           None \<Rightarrow> monthlyMap1
         | Some cur \<Rightarrow>
             if t_type t = Income
             then AList.update month (cur\<lparr>income := income cur + amount t\<rparr>) monthlyMap1
             else AList.update month (cur\<lparr>expense := expense cur + amount t\<rparr>) monthlyMap1)"

definition monthly_array :: "int \<Rightarrow> Transaction list \<Rightarrow> MonthlyData list" where
  "monthly_array tz txs =
     map (\<lambda>(month, data). \<lparr>month = month, m_income = income data, m_expense = expense data\<rparr>)
       (Object_entries (foldl (monthly_step tz) [] txs))"

definition loadAnalysisData :: "uuid \<Rightarrow> int \<Rightarrow> database \<Rightarrow> AnalysisData" where
  "loadAnalysisData uid tz db =
     (let txs = filter (\<lambda>t. t_user_id t = uid) (transactions db);
          incomeTransactions = filter (\<lambda>t. t_type t = Income) txs;
          expenseTransactions = filter (\<lambda>t. t_type t = Expense) txs;
          totalIncome = reduce_sum amount incomeTransactions;
          totalExpense = reduce_sum amount expenseTransactions
      in \<lparr>incomeByCategory = category_data totalIncome (categories_of incomeTransactions),
          expenseByCategory = category_data totalExpense (categories_of expenseTransactions),
          monthlyData = monthly_array tz txs\<rparr>)"

text \<open>
  The month label of a transaction, as the \<^verbatim>\<open>forEach\<close> computes it, and the two sums the
  specification asks for per label; \<open>first_occurrences\<close> lists the distinct elements of a
  list in the order in which each appears first.
\<close>

definition month_of :: "int \<Rightarrow> Transaction \<Rightarrow> string" where
  "month_of tz t = month_label tz (date t)"


primrec first_occurrences :: "'a list \<Rightarrow> 'a list" where
  "first_occurrences [] = []"
| "first_occurrences (x # xs) = x # filter (\<lambda>y. y \<noteq> x) (first_occurrences xs)"

section \<open>Export page: \<^verbatim>\<open>exportToCSV\<close>\<close>

text \<open>
  The values a fetched row holds: \<^verbatim>\<open>null\<close>, strings (uuid, text, date and timestamp
  columns), numbers and booleans; \<^verbatim>\<open>row[header]\<close> of a key the row lacks is
  \<^verbatim>\<open>undefined\<close>. The decimal form \<^verbatim>\<open>String(n)\<close> of a number is the parameter \<open>num_str\<close>.
  The double quote is \<open>CHR 0x22\<close>, the newline \<open>CHR 0x0A\<close>.
\<close>

datatype jsvalue = Null | Undefined | Str string | Num real | Bool bool

fun String_of :: "(real \<Rightarrow> string) \<Rightarrow> jsvalue \<Rightarrow> string" where
  "String_of num_str Null = ''null''"
| "String_of num_str Undefined = ''undefined''"
| "String_of num_str (Str s) = s"
| "String_of num_str (Num n) = num_str n"
| "String_of num_str (Bool b) = (if b then ''true'' else ''false'')"

text \<open>\<^verbatim>\<open>s.replace(/"/g, '""')\<close>\<close>

fun replace_quotes :: "string \<Rightarrow> string" where
  "replace_quotes [] = []"
| "replace_quotes (c # cs) =
     (if c = CHR 0x22 then CHR 0x22 # CHR 0x22 # replace_quotes cs
      else c # replace_quotes cs)"

fun join :: "string \<Rightarrow> string list \<Rightarrow> string" where
  "join sep [] = []"
| "join sep [x] = x"
| "join sep (x # y # ys) = x @ sep @ join sep (y # ys)"

definition needs_quotes :: "string \<Rightarrow> bool" where
  "needs_quotes stringValue =
     (CHR '','' \<in> set stringValue \<or> CHR 0x22 \<in> set stringValue
      \<or> CHR 0x0A \<in> set stringValue)"

text \<open>ExportData.tsx 32-40: the function mapped over the headers for one row.\<close>

definition csv_field :: "(real \<Rightarrow> string) \<Rightarrow> jsvalue \<Rightarrow> string" where
  "csv_field num_str v =
     (if v = Null \<or> v = Undefined then []
      else (let stringValue = String_of num_str v
            in if needs_quotes stringValue
               then [CHR 0x22] @ replace_quotes stringValue @ [CHR 0x22]
               else stringValue))"

definition row_get :: "jsvalue object \<Rightarrow> string \<Rightarrow> jsvalue" where
  "row_get row header = (case map_of row header of None \<Rightarrow> Undefined | Some v \<Rightarrow> v)"

text \<open>
  ExportData.tsx 23-42: nothing is produced for an empty result (an alert is shown);
  otherwise the header line and one line per row.
\<close>

definition csvContent :: "(real \<Rightarrow> string) \<Rightarrow> jsvalue object list \<Rightarrow> string option" where
  "csvContent num_str data =
     (case data of
        [] \<Rightarrow> None
      | first # _ \<Rightarrow>
          (let headers = map fst (Object_entries first)
           in Some (join [CHR 0x0A]
                (join '','' headers
                 # map (\<lambda>row. join '','' (map (\<lambda>header. csv_field num_str (row_get row header))
                                               headers))
                     data))))"

text \<open>
  What the specification asks of one field of a row, given the value the row holds under
  the header, if any: nothing for a missing or null value; a string with a comma, a
  double quote or a newline between double quotes, each of its double quotes written
  twice; every other value as its string form.
\<close>

fun csv_rendering :: "(real \<Rightarrow> string) \<Rightarrow> jsvalue option \<Rightarrow> string" where
  "csv_rendering num_str None = []"
| "csv_rendering num_str (Some Null) = []"
| "csv_rendering num_str (Some Undefined) = []"
| "csv_rendering num_str (Some (Str s)) =
     (if CHR '','' \<in> set s \<or> CHR 0x22 \<in> set s \<or> CHR 0x0A \<in> set s
      then [CHR 0x22] @ concat (map (\<lambda>c. if c = CHR 0x22 then [CHR 0x22, CHR 0x22] else [c]) s)
           @ [CHR 0x22]
      else s)"
| "csv_rendering num_str (Some (Num n)) = num_str n"
| "csv_rendering num_str (Some (Bool b)) = (if b then ''true'' else ''false'')"

section \<open>The store\<close>

text \<open>
  What the hosted store does with a request is outside the repository; the parts of it
  that the migration fixes are modelled, the rest is a parameter:
  \<^item> \<open>delivered\<close>: the request reaches the store and is executed (otherwise the client
    gets an error and nothing changes);
  \<^item> \<open>date_in\<close>: the input function of the column type \<^verbatim>\<open>date\<close>, which yields a value of
    the type or rejects the text;
  \<^item> \<open>parseFloat\<close>: JavaScript's \<^verbatim>\<open>parseFloat\<close>, \<open>None\<close> for \<^verbatim>\<open>NaN\<close>, which is sent as
    \<^verbatim>\<open>null\<close> and violates \<^verbatim>\<open>NOT NULL\<close>;
  \<^item> \<open>gen_random_uuid\<close> and \<open>clock\<close>: the column defaults of a new row.
  Row-level security restricts every statement to the caller's rows.
\<close>

record env =
  delivered :: bool
  date_in :: "string \<Rightarrow> pg_date option"
  parseFloat :: "string \<Rightarrow> real option"
  gen_random_uuid :: uuid
  clock :: timestamp


text \<open>
  \<^verbatim>\<open>DELETE FROM goals WHERE id = ...\<close> under the policy \<^verbatim>\<open>auth.uid() = user_id\<close>, with the
  referential action of \<^verbatim>\<open>investments.goal_id ... REFERENCES goals(id) ON DELETE SET NULL\<close>.
\<close>

definition delete_from_goals :: "uuid \<Rightarrow> uuid \<Rightarrow> database \<Rightarrow> database" where
  "delete_from_goals uid gid db =
     (let deleted = filter (\<lambda>g. g_id g = gid \<and> g_user_id g = uid) (goals db)
      in db\<lparr>goals := filter (\<lambda>g. \<not> (g_id g = gid \<and> g_user_id g = uid)) (goals db),
            investments :=
              map (\<lambda>i. case goal_id i of
                         None \<Rightarrow> i
                       | Some g \<Rightarrow> if g \<in> set (map g_id deleted) then i\<lparr>goal_id := None\<rparr> else i)
                  (investments db)\<rparr>)"

text \<open>
  InvestmentGoals.tsx 96-106, \<^verbatim>\<open>deleteGoal\<close>: nothing happens unless the user confirms;
  a failed request is logged and changes nothing.
\<close>

definition deleteGoal :: "bool \<Rightarrow> env \<Rightarrow> uuid \<Rightarrow> uuid \<Rightarrow> database \<Rightarrow> database" where
  "deleteGoal confirmed e uid gid db =
     (if \<not> confirmed then db
      else if \<not> delivered e then db
      else delete_from_goals uid gid db)"

section \<open>Transactions page: \<^verbatim>\<open>formatDate\<close> and \<^verbatim>\<open>handleSubmit\<close>\<close>








section \<open>Concrete rows used in the examples\<close>

text \<open>
  Day 20000 is 2024-10-04. The clock of the examples stands at noon UTC of that day and
  the zone is UTC+05:30 unless said otherwise.
\<close>

definition noon_20000 :: timestamp where
  "noon_20000 = 20000 * 86400000 + 43200000"

definition ist :: int where
  "ist = 19800000"

definition bill_on :: "int \<Rightarrow> bill_status \<Rightarrow> Bill" where
  "bill_on d s = \<lparr>b_id = ''b1'', b_user_id = ''u1'', b_name = ''rent'', b_amount = 1200,
     due_date = d, status = s, b_category = ''utilities'', recurring = False,
     b_created_at = 0\<rparr>"

definition db_of_bills :: "Bill list \<Rightarrow> database" where
  "db_of_bills bs = \<lparr>goals = [], transactions = [], bills = bs, investments = []\<rparr>"

definition goal_of :: "real \<Rightarrow> real \<Rightarrow> Goal" where
  "goal_of target current = \<lparr>g_id = ''g1'', g_user_id = ''u1'', title = ''car'',
     target_amount = target, current_amount = current, deadline = None,
     g_category = ''general'', g_description = [], g_created_at = 0, g_updated_at = 0\<rparr>"

definition tx_of :: "transaction_type \<Rightarrow> real \<Rightarrow> string \<Rightarrow> int \<Rightarrow> Transaction" where
  "tx_of ty a c d = \<lparr>t_id = ''t1'', t_user_id = ''u1'', t_type = ty, amount = a,
     category = c, description = [], date = Day d, t_created_at = 0\<rparr>"

definition db_of_transactions :: "Transaction list \<Rightarrow> database" where
  "db_of_transactions ts = \<lparr>goals = [], transactions = ts, bills = [], investments = []\<rparr>"


definition quoted_example :: string where
  "quoted_example = [CHR ''a'', CHR '','', CHR 0x22, CHR ''b'', CHR 0x22]"

definition inv_of :: "uuid \<Rightarrow> uuid option \<Rightarrow> Investment" where
  "inv_of iid g = \<lparr>i_id = iid, i_user_id = ''u1'', i_name = ''fund'', i_type = ''stocks'',
     amount_invested = 500, current_value = 650, purchase_date = 19000, goal_id = g,
     i_created_at = 0, i_updated_at = 0\<rparr>"

definition db_goal_and_investments :: database where
  "db_goal_and_investments = \<lparr>goals = [goal_of 1000 200], transactions = [], bills = [],
     investments = [inv_of ''i1'' (Some ''g1''), inv_of ''i2'' None]\<rparr>"

text \<open>
  A store for the examples: its date column reads the text \<^verbatim>\<open>2024-10-04\<close> as day 20000
  and the text \<^verbatim>\<open>infinity\<close> as the special value, and rejects the other texts tried
  below.
\<close>

definition env_of :: "bool \<Rightarrow> env" where
  "env_of d = \<lparr>delivered = d,
     date_in = (\<lambda>s. if s = ''2024-10-04'' then Some (Day 20000)
                    else if s = ''infinity'' then Some DateInfinity else None),
     parseFloat = (\<lambda>s. if s = ''12.5'' then Some (25 / 2) else None),
     gen_random_uuid = ''t9'', clock = 0\<rparr>"


section \<open>Lemmas on dates\<close>

lemma overdue_test_is_date_only:
  assumes "0 \<le> tz" and "tz < ms_per_day"
  shows "new_Date d < setHours0 tz now \<longleftrightarrow> d < local_day tz now"
  using assms unfolding new_Date_def setHours0_def ms_per_day_def by auto

lemma before_today_is_overdue:
  assumes "tz < ms_per_day" and "d < local_day tz now"
  shows "new_Date d < setHours0 tz now"
  using assms unfolding new_Date_def setHours0_def ms_per_day_def by auto

lemma reduce_sum_acc:
  "foldl (\<lambda>sum x. sum + f x) a xs = a + sum_list (map f xs)"
  by (induction xs arbitrary: a) (simp_all add: algebra_simps)

lemma reduce_sum_eq: "reduce_sum f xs = sum_list (map f xs)"
  by (simp add: reduce_sum_def reduce_sum_acc)

section \<open>Bill status\<close>

text \<open>
  C1. A bill whose stored status is paid is returned unchanged by the status derivation
  of \<^verbatim>\<open>loadBills\<close>, for every due date, every clock value and every zone: its effective
  status is paid.
\<close>

theorem paid_bill_stays_paid:
  assumes "status bill = Paid"
  shows "billWithStatus tz now bill = bill \<and> status (billWithStatus tz now bill) = Paid"
  using assms by (simp add: billWithStatus_def)

theorem paid_bill_stays_paid_witness:
  "status (bill_on 19000 Paid) = Paid
   \<and> billWithStatus ist noon_20000 (bill_on 19000 Paid) = bill_on 19000 Paid
   \<and> status (billWithStatus ist noon_20000 (bill_on 19000 Paid)) = Paid"
  using paid_bill_stays_paid [of "bill_on 19000 Paid" ist noon_20000]
  by (simp add: bill_on_def)

text \<open>
  C3, as the code has it. For a bill whose stored status is not paid, and a zone at or
  east of UTC (offset from 0 up to, not including, 24 hours), the effective status is
  overdue when the due date is strictly before today's local date, and otherwise the
  stored status, unchanged: a stored pending stays pending and a stored overdue stays
  overdue. A stored pending bill due yesterday comes out overdue.
\<close>

theorem unpaid_bill_effective_status:
  assumes "status bill \<noteq> Paid" and "0 \<le> tz" and "tz < ms_per_day"
  shows "status (billWithStatus tz now bill) =
           (if due_date bill < local_day tz now then Overdue else status bill)"
proof -
  have "new_Date (due_date bill) < setHours0 tz now \<longleftrightarrow> due_date bill < local_day tz now"
    using assms(2,3) by (rule overdue_test_is_date_only)
  then show ?thesis
    using assms(1) by (simp add: billWithStatus_def)
qed

theorem unpaid_bill_effective_status_witness:
  "status (bill_on 19999 Pending) \<noteq> Paid \<and> 0 \<le> ist \<and> ist < ms_per_day
   \<and> local_day ist noon_20000 = 20000
   \<and> status (billWithStatus ist noon_20000 (bill_on 19999 Pending)) = Overdue"
  using unpaid_bill_effective_status [of "bill_on 19999 Pending" ist noon_20000]
  by (simp add: bill_on_def ist_def noon_20000_def ms_per_day_def local_day_def)

text \<open>
  The statement of C3 fails where the stored status is overdue and the due date is not
  yet past: the bill below is due on day 20005, today is day 20000, and its effective
  status is overdue, not pending.
\<close>

theorem stored_overdue_not_reset_to_pending:
  "status (bill_on 20005 Overdue) \<noteq> Paid
   \<and> \<not> due_date (bill_on 20005 Overdue) < local_day ist noon_20000
   \<and> status (billWithStatus ist noon_20000 (bill_on 20005 Overdue)) = Overdue
   \<and> status (billWithStatus ist noon_20000 (bill_on 20005 Overdue)) \<noteq> Pending"
  by (simp add: billWithStatus_def bill_on_def ist_def noon_20000_def ms_per_day_def
      local_day_def new_Date_def setHours0_def)

text \<open>
  West of UTC the test is not date-only: at UTC-05:00 a pending bill due today (day
  20000) is already overdue, since its due date is read as midnight UTC and today as
  midnight local time.
\<close>

lemma due_today_overdue_west_of_utc:
  "local_day (- 18000000) noon_20000 = 20000
   \<and> status (billWithStatus (- 18000000) noon_20000 (bill_on 20000 Pending)) = Overdue"
  by (simp add: billWithStatus_def bill_on_def noon_20000_def ms_per_day_def
      local_day_def new_Date_def setHours0_def)

section \<open>Dashboard\<close>

text \<open>
  C5. The net worth of the Dashboard, and the one \<^verbatim>\<open>loadNetWorth\<close> computes for the layout,
  is the sum of the amounts of the user's income transactions, minus the sum of the
  amounts of the expense transactions, plus the sum of \<^verbatim>\<open>current_value\<close> over the user's
  investments; with no investments it is total income minus total expenses.
\<close>

theorem net_worth_is_income_minus_expense_plus_investments:
  "netWorth (loadDashboardData uid db) =
     (\<Sum>t\<leftarrow>filter (\<lambda>t. t_type t = Income) (filter (\<lambda>t. t_user_id t = uid) (transactions db)). amount t)
     - (\<Sum>t\<leftarrow>filter (\<lambda>t. t_type t = Expense) (filter (\<lambda>t. t_user_id t = uid) (transactions db)). amount t)
     + (\<Sum>i\<leftarrow>filter (\<lambda>i. i_user_id i = uid) (investments db). current_value i)
   \<and> loadNetWorth uid db = netWorth (loadDashboardData uid db)
   \<and> netWorth (loadDashboardData uid (db\<lparr>investments := []\<rparr>)) =
       totalIncome (loadDashboardData uid db) - totalExpenses (loadDashboardData uid db)
   \<and> loadNetWorth uid (db\<lparr>investments := []\<rparr>) =
       totalIncome (loadDashboardData uid db) - totalExpenses (loadDashboardData uid db)"
  by (simp add: loadDashboardData_def loadNetWorth_def reduce_sum_eq Let_def)

text \<open>
  C10. The Dashboard's \<^verbatim>\<open>pendingBills\<close> is the number of the user's bills whose stored
  status is pending; the due date plays no part. A bill stored as pending and due before
  today is among the rows the Dashboard counts, while \<^verbatim>\<open>loadBills\<close> of the Bills page
  lists the same bill as overdue.
\<close>

theorem dashboard_pending_is_stored_pending:
  "pendingBills (loadDashboardData uid db) =
     length (filter (\<lambda>b. b_user_id b = uid \<and> status b = Pending) (bills db))
   \<and> (b \<in> set (bills db) \<and> b_user_id b = uid \<and> status b = Pending
        \<and> tz < ms_per_day \<and> due_date b < local_day tz now
      \<longrightarrow> b \<in> set (filter (\<lambda>b. b_user_id b = uid \<and> status b = Pending) (bills db))
          \<and> 0 < pendingBills (loadDashboardData uid db)
          \<and> b\<lparr>status := Overdue\<rparr> \<in> set (loadBills uid tz now db))"
proof -
  have count: "pendingBills (loadDashboardData uid db) =
      length (filter (\<lambda>b. b_user_id b = uid \<and> status b = Pending) (bills db))"
    by (simp add: loadDashboardData_def Let_def conj_commute)
  have page: "b\<lparr>status := Overdue\<rparr> \<in> set (loadBills uid tz now db)"
    if "b \<in> set (bills db)" "b_user_id b = uid" "status b = Pending"
       "tz < ms_per_day" "due_date b < local_day tz now"
  proof -
    have "new_Date (due_date b) < setHours0 tz now"
      using that(4,5) by (rule before_today_is_overdue)
    then have "billWithStatus tz now b = b\<lparr>status := Overdue\<rparr>"
      using that(3) by (simp add: billWithStatus_def)
    moreover have "b \<in> set (sort_key due_date (filter (\<lambda>b. b_user_id b = uid) (bills db)))"
      using that(1,2) by simp
    ultimately show ?thesis
      unfolding loadBills_def Let_def by (metis image_eqI set_map)
  qed
  have pos: "0 < length (filter (\<lambda>b. b_user_id b = uid \<and> status b = Pending) (bills db))"
    if "b \<in> set (bills db)" "b_user_id b = uid" "status b = Pending"
    using that by (auto simp: filter_empty_conv)
  show ?thesis
    using count page pos by auto
qed

theorem dashboard_pending_is_stored_pending_witness:
  "bill_on 19999 Pending \<in> set (bills (db_of_bills [bill_on 19999 Pending]))
   \<and> b_user_id (bill_on 19999 Pending) = ''u1'' \<and> status (bill_on 19999 Pending) = Pending
   \<and> ist < ms_per_day \<and> due_date (bill_on 19999 Pending) < local_day ist noon_20000
   \<and> pendingBills (loadDashboardData ''u1'' (db_of_bills [bill_on 19999 Pending])) = 1
   \<and> (bill_on 19999 Pending)\<lparr>status := Overdue\<rparr>
        \<in> set (loadBills ''u1'' ist noon_20000 (db_of_bills [bill_on 19999 Pending]))"
  using dashboard_pending_is_stored_pending
    [of "''u1''" "db_of_bills [bill_on 19999 Pending]" "bill_on 19999 Pending" ist noon_20000]
  by (simp add: bill_on_def db_of_bills_def ist_def noon_20000_def ms_per_day_def local_day_def)

section \<open>Division by a zero total\<close>

lemma js_percent_zero_divisor:
  "js_mul (js_div x 0) 100 =
     (if x = 0 then NaN else if 0 < x then PosInfinity else NegInfinity)"
  by (simp add: js_div_def)

lemma set_Object_entries: "set (Object_entries obj) = set obj"
  by (auto simp: Object_entries_def)

lemma category_data_zero_total:
  assumes "r \<in> set (category_data 0 cats)"
  shows "percentage r \<in> {NaN, PosInfinity, NegInfinity}"
proof -
  from assms obtain k a where
    "r = \<lparr>c_category = k, c_amount = a, percentage = js_mul (js_div a 0) 100\<rparr>"
    by (auto simp: category_data_def set_Object_entries)
  then show ?thesis
    by (simp add: js_percent_zero_divisor)
qed

text \<open>
  The bar of the whole portfolio, on the same page as the goal cards, does test its
  divisor: for the goal with target 0 it is \<^verbatim>\<open>0%\<close> wide.
\<close>

lemma portfolio_bar_guards_zero_target:
  "portfolio_bar_width [goal_of 0 0] = Fin 0"
  by (simp add: portfolio_bar_width_def totalTargetCap_def reduce_sum_def goal_of_def)

text \<open>The savings rate of the Dashboard tests its divisor too.\<close>

lemma savings_rate_guards_zero_income:
  "totalIncome stats = 0 \<Longrightarrow> savings_rate_label stats = Some ''0%''"
  by (simp add: savings_rate_label_def)

text \<open>
  C2, what the code does. For a goal with \<^verbatim>\<open>target_amount = 0\<close> the progress of its
  card is the result of a division by zero: \<^verbatim>\<open>NaN\<close> when the current amount is 0 too,
  an infinity otherwise, and the label shows it as \<^verbatim>\<open>NaN%\<close>, \<^verbatim>\<open>Infinity%\<close> or
  \<^verbatim>\<open>-Infinity%\<close>; it is never \<^verbatim>\<open>0%\<close>.
\<close>

theorem zero_target_progress_is_not_a_number:
  assumes "target_amount goal = 0"
  shows "progress goal =
           (if current_amount goal = 0 then NaN
            else if 0 < current_amount goal then PosInfinity else NegInfinity)
         \<and> progress_label goal =
           Some (if current_amount goal = 0 then ''NaN%''
                 else if 0 < current_amount goal then ''Infinity%'' else ''-Infinity%'')
         \<and> progress_bar_width goal =
           (if current_amount goal = 0 then NaN
            else if 0 < current_amount goal then Fin 100 else NegInfinity)"
  using assms
  by (simp add: progress_def progress_label_def progress_bar_width_def js_percent_zero_divisor)

theorem zero_target_progress_is_not_a_number_witness:
  "target_amount (goal_of 0 0) = 0
   \<and> progress (goal_of 0 0) = NaN
   \<and> progress_label (goal_of 0 0) = Some ''NaN%''
   \<and> progress_bar_width (goal_of 0 0) = NaN"
  using zero_target_progress_is_not_a_number [of "goal_of 0 0"]
  by (simp add: goal_of_def)

text \<open>
  C4, what the code does. When the total of a type is 0, every row of that type's
  category breakdown has a percentage that is the result of a division by zero
  (\<^verbatim>\<open>NaN\<close> or an infinity), never 0. Rows exist in that case as soon as a transaction of
  the type has amount 0.
\<close>

theorem zero_total_percentages_are_not_numbers:
  "(reduce_sum amount (filter (\<lambda>t. t_type t = Income)
        (filter (\<lambda>t. t_user_id t = uid) (transactions db))) = 0
      \<and> r \<in> set (incomeByCategory (loadAnalysisData uid tz db))
      \<longrightarrow> percentage r \<in> {NaN, PosInfinity, NegInfinity})
   \<and> (reduce_sum amount (filter (\<lambda>t. t_type t = Expense)
        (filter (\<lambda>t. t_user_id t = uid) (transactions db))) = 0
      \<and> r \<in> set (expenseByCategory (loadAnalysisData uid tz db))
      \<longrightarrow> percentage r \<in> {NaN, PosInfinity, NegInfinity})"
  by (auto simp: loadAnalysisData_def Let_def dest: category_data_zero_total)

theorem zero_total_percentages_are_not_numbers_witness:
  "reduce_sum amount (filter (\<lambda>t. t_type t = Income)
      (filter (\<lambda>t. t_user_id t = ''u1'')
        (transactions (db_of_transactions [tx_of Income 0 ''salary'' 20000])))) = 0
   \<and> incomeByCategory
       (loadAnalysisData ''u1'' ist (db_of_transactions [tx_of Income 0 ''salary'' 20000]))
     = [\<lparr>c_category = ''salary'', c_amount = 0, percentage = NaN\<rparr>]
   \<and> percentage \<lparr>c_category = ''salary'', c_amount = 0, percentage = NaN\<rparr>
       \<in> {NaN, PosInfinity, NegInfinity}"
  using zero_total_percentages_are_not_numbers
    [of "''u1''" "db_of_transactions [tx_of Income 0 ''salary'' 20000]"
        "\<lparr>c_category = ''salary'', c_amount = 0, percentage = NaN\<rparr>" ist]
  by (simp add: loadAnalysisData_def db_of_transactions_def tx_of_def reduce_sum_def
      categories_of_def or_zero_def category_data_def Object_entries_def array_index_def
      is_digit_def js_div_def)

section \<open>Monthly series\<close>

lemma set_first_occurrences [simp]: "set (first_occurrences xs) = set xs"
  by (induction xs) auto

lemma distinct_first_occurrences [simp]: "distinct (first_occurrences xs)"
  by (induction xs) auto











lemma month_short_names:
  "month_short m \<in> set [''Jan'', ''Feb'', ''Mar'', ''Apr'', ''May'', ''Jun'',
                         ''Jul'', ''Aug'', ''Sep'', ''Oct'', ''Nov'', ''Dec'']"
  by (simp add: month_short_def)

lemma show_nat_digits: "show_nat n \<noteq> [] \<and> list_all is_digit (show_nat n)"
proof (induction n rule: show_nat.induct)
  case (1 n)
  have digit: "is_digit (''0123456789'' ! k)" if "k < 10" for k
    unfolding is_digit_def using that by (intro nth_mem) simp
  show ?case
  proof (cases "n < 10")
    case True
    then show ?thesis
      by (subst (1 2) show_nat.simps) (simp add: digit)
  next
    case False
    have "n mod 10 < 10" by simp
    with False "1.IH" show ?thesis
      by (subst (1 2) show_nat.simps) (simp add: digit)
  qed
qed

text \<open>
  The form of every label: one of the twelve English short month names, a space, and
  the decimal digits of the year.
\<close>

lemma calendar_month_label_shape:
  "\<exists>name digits. calendar_month_label n = name @ '' '' @ digits
     \<and> name \<in> set [''Jan'', ''Feb'', ''Mar'', ''Apr'', ''May'', ''Jun'',
                    ''Jul'', ''Aug'', ''Sep'', ''Oct'', ''Nov'', ''Dec'']
     \<and> digits \<noteq> [] \<and> list_all is_digit digits"
proof -
  obtain y m d where c: "civil_from_days n = (y, m, d)"
    by (cases "civil_from_days n") auto
  have "calendar_month_label n = month_short m @ '' '' @ show_nat (nat y)"
    by (simp add: calendar_month_label_def c)
  then show ?thesis
    using month_short_names [of m] show_nat_digits [of "nat y"] by blast
qed










lemma label_19997: "calendar_month_label 19997 = ''Oct 2024''"
  by code_simp

lemma label_19996: "calendar_month_label 19996 = ''Sep 2024''"
  by code_simp




text \<open>
  West of UTC the label is not that of the date: at UTC-05:00 a transaction dated
  2024-10-01 (day 19997) is filed under September, since its date is read as midnight
  UTC and printed in local time.
\<close>

lemma first_of_month_filed_under_previous_west_of_utc:
  "month_of (- 18000000) (tx_of Income 1000 ''salary'' 19997) = ''Sep 2024''
   \<and> calendar_month_label 19997 = ''Oct 2024''"
proof -
  have "local_day (- 18000000) (new_Date 19997) = 19996"
    by (simp add: local_day_def new_Date_def ms_per_day_def)
  then show ?thesis
    by (simp add: month_of_def month_label_def toLocaleDateString_def tx_of_def
        label_19996 label_19997)
qed

section \<open>CSV export\<close>

lemma replace_quotes_concat:
  "replace_quotes s = concat (map (\<lambda>c. if c = CHR 0x22 then [CHR 0x22, CHR 0x22] else [c]) s)"
  by (induction s) auto

lemma csv_field_is_rendering:
  assumes "\<forall>n. CHR '','' \<notin> set (num_str n) \<and> CHR 0x22 \<notin> set (num_str n)
               \<and> CHR 0x0A \<notin> set (num_str n)"
  shows "csv_field num_str (row_get row header) = csv_rendering num_str (map_of row header)"
proof (cases "map_of row header")
  case None
  then show ?thesis by (simp add: csv_field_def row_get_def)
next
  case (Some v)
  then show ?thesis
    using assms
    by (cases v) (simp_all add: csv_field_def row_get_def needs_quotes_def replace_quotes_concat)
qed

text \<open>
  C7. In every line of the file, the field under a header is rendered from the value
  the row holds under that header: the empty string when the value is \<^verbatim>\<open>null\<close> or the
  row lacks the header; a string that contains a comma, a double quote or a newline
  between double quotes, each of its characters as itself except a double quote, which
  is written twice; every other value as its string form (the decimal form of a number
  holds none of the three characters). The file is the header line followed by one such
  line per row, the fields of a line joined by commas and the lines by newlines.
\<close>

theorem csv_rows_render_their_fields:
  assumes "\<forall>n. CHR '','' \<notin> set (num_str n) \<and> CHR 0x22 \<notin> set (num_str n)
               \<and> CHR 0x0A \<notin> set (num_str n)"
  shows "csv_field num_str (row_get row header) = csv_rendering num_str (map_of row header)
       \<and> csvContent num_str [] = None
       \<and> csvContent num_str (first # rest) =
           Some (join [CHR 0x0A]
             (join '','' (map fst (Object_entries first))
              # map (\<lambda>row. join '','' (map (\<lambda>header. csv_rendering num_str (map_of row header))
                                          (map fst (Object_entries first))))
                  (first # rest)))"
  using csv_field_is_rendering [OF assms]
  by (simp add: csvContent_def Let_def)

theorem csv_rows_render_their_fields_witness:
  "CHR '','' \<notin> set ''12.5'' \<and> CHR 0x22 \<notin> set ''12.5'' \<and> CHR 0x0A \<notin> set ''12.5''
   \<and> csv_field (\<lambda>n. ''12.5'') (row_get [(''name'', Str quoted_example)] ''name'') =
       [CHR 0x22, CHR ''a'', CHR '','', CHR 0x22, CHR 0x22, CHR ''b'', CHR 0x22, CHR 0x22,
        CHR 0x22]
   \<and> csvContent (\<lambda>n. ''12.5'')
       [[(''name'', Str ''a,b''), (''amount'', Num (25 / 2)), (''deadline'', Null)],
        [(''name'', Str ''rent''), (''amount'', Num (25 / 2))]]
     = Some (''name,amount,deadline'' @ [CHR 0x0A]
             @ [CHR 0x22] @ ''a,b'' @ [CHR 0x22] @ '',12.5,'' @ [CHR 0x0A]
             @ ''rent,12.5,'')"
proof -
  have num: "\<forall>n::real. CHR '','' \<notin> set ''12.5'' \<and> CHR 0x22 \<notin> set ''12.5''
      \<and> CHR 0x0A \<notin> set ''12.5''"
    by simp
  show ?thesis
    using csv_rows_render_their_fields
        [where num_str = "\<lambda>n. ''12.5''" and row = "[(''name'', Str quoted_example)]"
           and header = "''name''"
           and first = "[(''name'', Str ''a,b''), (''amount'', Num (25 / 2)), (''deadline'', Null)]"
           and rest = "[[(''name'', Str ''rent''), (''amount'', Num (25 / 2))]]", OF num]
    by (simp add: quoted_example_def Object_entries_def array_index_def is_digit_def)
qed

section \<open>Deleting a goal\<close>

lemma delete_from_goals_investments:
  "investments (delete_from_goals uid gid db) =
     map (\<lambda>i. if goal_id i = Some gid \<and> (\<exists>g \<in> set (goals db). g_id g = gid \<and> g_user_id g = uid)
               then i\<lparr>goal_id := None\<rparr> else i) (investments db)"
  by (auto simp: delete_from_goals_def Let_def split: option.splits)

text \<open>
  C6. \<^verbatim>\<open>deleteGoal\<close> never removes an investment: the table keeps its length, and the row
  at every position keeps all its fields other than \<^verbatim>\<open>goal_id\<close>. When the delete is
  carried out on a goal of the caller, the goal is gone and every investment that was
  linked to it has \<^verbatim>\<open>goal_id\<close> null and is otherwise unchanged; the other investments
  are unchanged.
\<close>

theorem deleting_goal_keeps_investments:
  "length (investments (deleteGoal confirmed e uid gid db)) = length (investments db)
   \<and> (n < length (investments db) \<longrightarrow>
        (investments (deleteGoal confirmed e uid gid db) ! n)
          \<lparr>goal_id := goal_id (investments db ! n)\<rparr> = investments db ! n)
   \<and> (confirmed \<and> delivered e \<and> g \<in> set (goals db) \<and> g_id g = gid \<and> g_user_id g = uid
        \<and> n < length (investments db) \<longrightarrow>
        g \<notin> set (goals (deleteGoal confirmed e uid gid db))
        \<and> investments (deleteGoal confirmed e uid gid db) ! n =
            (if goal_id (investments db ! n) = Some gid
             then (investments db ! n)\<lparr>goal_id := None\<rparr> else investments db ! n))"
proof -
  have len: "length (investments (deleteGoal confirmed e uid gid db)) = length (investments db)"
    by (simp add: deleteGoal_def delete_from_goals_investments)
  have frame: "(investments (deleteGoal confirmed e uid gid db) ! n)
          \<lparr>goal_id := goal_id (investments db ! n)\<rparr> = investments db ! n"
    if "n < length (investments db)"
    using that by (simp add: deleteGoal_def delete_from_goals_investments)
  have cleared: "g \<notin> set (goals (deleteGoal confirmed e uid gid db))
        \<and> investments (deleteGoal confirmed e uid gid db) ! n =
            (if goal_id (investments db ! n) = Some gid
             then (investments db ! n)\<lparr>goal_id := None\<rparr> else investments db ! n)"
    if "confirmed" "delivered e" "g \<in> set (goals db)" "g_id g = gid" "g_user_id g = uid"
       "n < length (investments db)"
  proof -
    have "g \<notin> set (goals (deleteGoal confirmed e uid gid db))"
      using that by (simp add: deleteGoal_def delete_from_goals_def Let_def)
    moreover have "\<exists>g \<in> set (goals db). g_id g = gid \<and> g_user_id g = uid"
      using that by blast
    ultimately show ?thesis
      using that by (simp add: deleteGoal_def delete_from_goals_investments)
  qed
  show ?thesis
    using len frame cleared by blast
qed

theorem deleting_goal_keeps_investments_witness:
  "goal_of 1000 200 \<in> set (goals db_goal_and_investments)
   \<and> g_id (goal_of 1000 200) = ''g1'' \<and> g_user_id (goal_of 1000 200) = ''u1''
   \<and> delivered (env_of True)
   \<and> goals (deleteGoal True (env_of True) ''u1'' ''g1'' db_goal_and_investments) = []
   \<and> investments (deleteGoal True (env_of True) ''u1'' ''g1'' db_goal_and_investments) =
       [inv_of ''i1'' None, inv_of ''i2'' None]"
  using deleting_goal_keeps_investments
    [of True "env_of True" "''u1''" "''g1''" db_goal_and_investments 0 "goal_of 1000 200"]
  by (simp add: db_goal_and_investments_def goal_of_def inv_of_def env_of_def deleteGoal_def
      delete_from_goals_def)

section \<open>Submitting a transaction\<close>










end
